theory Spec2Isabelle
  imports Complex_Main "HOL-Library.Word" "HOL-Library.AList"
begin

section \<open>mysqlbeat: the row-to-metric transformation of the beater package\<close>

text \<open>
  The beater polls a database, turns every result row into an event and tracks, per
  series key, the last value and the time it was seen, to emit per-second rates. This
  theory embeds the beater's functions (\<open>roundF2I\<close>, \<open>getKeyFromRow\<close>,
  \<open>generateEventFromRow\<close>, \<open>appendRowToEvent\<close>, \<open>generateEmptyEvent\<close>,
  \<open>iterateQuery\<close>, \<open>beat\<close>) and proves properties of them.

  What lies outside the package is modelled at its boundary:
  \<^item> \<open>int64\<close> is \<open>64 word\<close>: subtraction wraps, comparison reads the word signed;
  \<^item> \<open>float64\<close> is the type \<open>f64\<close> below, with IEEE 754 round-to-nearest-even;
  \<^item> \<open>strconv.ParseInt(s, 0, 64)\<close> and \<open>strconv.ParseFloat(s, 64)\<close> are parameters
    (record \<open>strconv\<close>): \<open>None\<close> stands for a non-nil error;
  \<^item> a \<open>*sql.Rows\<close> cursor is the record \<open>Rows\<close>; \<open>time.Time\<close> is an integer
    count of nanoseconds.
\<close>

subsection \<open>float64\<close>

text \<open>
  A finite float64 is modelled by the real number it denotes, so \<open>Fin\<close> ranges over a
  superset of the finite binary64 values; the two zeros are identified (the program
  never divides by a negative zero: its only divisors are values of \<open>Seconds\<close>).
  Operations that round do so through \<open>f64_round\<close>; \<open>math.Modf\<close>, \<open>math.Floor\<close>
  and \<open>math.Ceil\<close> are exact on binary64 values.
\<close>

datatype f64 = Fin real | PInf | NInf | NaN

definition pow2 :: "int \<Rightarrow> real" where
  "pow2 k = (if 0 \<le> k then 2 ^ nat k else 1 / 2 ^ nat (- k))"

fun binade_up :: "nat \<Rightarrow> real \<Rightarrow> int \<Rightarrow> int" where
  "binade_up 0 x e = e"
| "binade_up (Suc n) x e = (if x < 2 then e else binade_up n (x / 2) (e + 1))"

fun binade_down :: "nat \<Rightarrow> real \<Rightarrow> int \<Rightarrow> int" where
  "binade_down 0 x e = e"
| "binade_down (Suc n) x e = (if 1 \<le> x then e else binade_down n (x * 2) (e - 1))"

text \<open>
  The exponent \<open>e\<close> of the binade of \<open>x\<close>: \<open>2 ^ e \<le> \<bar>x\<bar> < 2 ^ (e + 1)\<close>, kept
  within the exponent range of binary64 (\<open>-1022\<close> for subnormals, at most \<open>1023\<close>).
\<close>

definition f64_exponent :: "real \<Rightarrow> int" where
  "f64_exponent x =
     (if 1 \<le> \<bar>x\<bar> then binade_up 1023 \<bar>x\<bar> 0 else binade_down 1022 \<bar>x\<bar> 0)"

definition round_half_even :: "real \<Rightarrow> int" where
  "round_half_even x =
     (let f = \<lfloor>x\<rfloor>; d = x - of_int f
      in if d < 1 / 2 then f else if 1 / 2 < d then f + 1 else if even f then f else f + 1)"

text \<open>
  Round to nearest, ties to even, with a 53-bit significand: the nearest multiple of
  the binade's quantum \<open>2 ^ (e - 52)\<close>; a magnitude that rounds to \<open>2 ^ 1024\<close>
  overflows to an infinity.
\<close>

definition f64_round :: "real \<Rightarrow> f64" where
  "f64_round x =
     (if x = 0 then Fin 0
      else
        let e = f64_exponent x; q = pow2 (e - 52); m = round_half_even (\<bar>x\<bar> / q)
        in if e = 1023 \<and> 2 ^ 53 \<le> m then (if 0 < x then PInf else NInf)
           else Fin (sgn x * of_int m * q))"

fun f64_neg :: "f64 \<Rightarrow> f64" where
  "f64_neg (Fin x) = Fin (- x)"
| "f64_neg PInf = NInf"
| "f64_neg NInf = PInf"
| "f64_neg NaN = NaN"

fun f64_add :: "f64 \<Rightarrow> f64 \<Rightarrow> f64" where
  "f64_add (Fin x) (Fin y) = f64_round (x + y)"
| "f64_add NaN b = NaN"
| "f64_add a NaN = NaN"
| "f64_add PInf NInf = NaN"
| "f64_add NInf PInf = NaN"
| "f64_add PInf b = PInf"
| "f64_add NInf b = NInf"
| "f64_add a PInf = PInf"
| "f64_add a NInf = NInf"

definition f64_sub :: "f64 \<Rightarrow> f64 \<Rightarrow> f64" where
  "f64_sub a b = f64_add a (f64_neg b)"

text \<open>Division: a finite non-zero value over zero is an infinity, \<open>0 / 0\<close> is NaN.\<close>

fun f64_div :: "f64 \<Rightarrow> f64 \<Rightarrow> f64" where
  "f64_div (Fin x) (Fin y) =
     (if y = 0 then (if x = 0 then NaN else if 0 < x then PInf else NInf)
      else f64_round (x / y))"
| "f64_div NaN b = NaN"
| "f64_div a NaN = NaN"
| "f64_div (Fin x) b = Fin 0"
| "f64_div PInf (Fin y) = (if y < 0 then NInf else PInf)"
| "f64_div NInf (Fin y) = (if y < 0 then PInf else NInf)"
| "f64_div a b = NaN"

text \<open>Comparisons: every comparison with NaN is false.\<close>

fun f64_gt :: "f64 \<Rightarrow> f64 \<Rightarrow> bool" where
  "f64_gt (Fin x) (Fin y) = (y < x)"
| "f64_gt NaN b = False"
| "f64_gt a NaN = False"
| "f64_gt PInf PInf = False"
| "f64_gt PInf b = True"
| "f64_gt a NInf = (a \<noteq> NInf)"
| "f64_gt a b = False"

fun f64_ge :: "f64 \<Rightarrow> f64 \<Rightarrow> bool" where
  "f64_ge NaN b = False"
| "f64_ge a NaN = False"
| "f64_ge a b = (a = b \<or> f64_gt a b)"

definition trunc :: "real \<Rightarrow> int" where
  "trunc x = (if 0 \<le> x then \<lfloor>x\<rfloor> else \<lceil>x\<rceil>)"

text \<open>
  \<open>math.Modf\<close>: integer and fractional part, both with the sign of the argument;
  \<open>Modf(\<plusminus>Inf) = (\<plusminus>Inf, NaN)\<close>.
\<close>

fun Modf :: "f64 \<Rightarrow> f64 \<times> f64" where
  "Modf (Fin x) = (Fin (of_int (trunc x)), Fin (x - of_int (trunc x)))"
| "Modf PInf = (PInf, NaN)"
| "Modf NInf = (NInf, NaN)"
| "Modf NaN = (NaN, NaN)"

fun Floor :: "f64 \<Rightarrow> f64" where
  "Floor (Fin x) = Fin (of_int \<lfloor>x\<rfloor>)"
| "Floor a = a"

fun Ceil :: "f64 \<Rightarrow> f64" where
  "Ceil (Fin x) = Fin (of_int \<lceil>x\<rceil>)"
| "Ceil a = a"

subsection \<open>int64 and its conversions\<close>

type_synonym int64 = "64 word"

definition f64_of_int64 :: "int64 \<Rightarrow> f64" where
  "f64_of_int64 n = f64_round (of_int (sint n))"

text \<open>
  The conversion \<open>int64(f)\<close> truncates towards zero. For a value that int64 cannot
  represent (and for NaN and the infinities) the Go specification leaves the result
  implementation-dependent: \<open>None\<close>.
\<close>

fun int64_of_f64 :: "f64 \<Rightarrow> int64 option" where
  "int64_of_f64 (Fin x) =
     (if - (2 ^ 63) \<le> trunc x \<and> trunc x < 2 ^ 63 then Some (word_of_int (trunc x)) else None)"
| "int64_of_f64 a = None"

subsection \<open>roundF2I\<close>

text \<open>
  \<^verbatim>\<open>
  func roundF2I(val float64, roundOn float64) (newVal int64) {
      var round float64
      digit := val
      _, div := math.Modf(digit)
      if div >= roundOn { round = math.Ceil(digit) } else { round = math.Floor(digit) }
      return int64(round)
  }
  \<close>
\<close>

definition roundF2I :: "f64 \<Rightarrow> f64 \<Rightarrow> int64 option" where
  "roundF2I val roundOn =
     (let digit = val;
          dv = snd (Modf digit);
          rnd = (if f64_ge dv roundOn then Ceil digit else Floor digit)
      in int64_of_f64 rnd)"

subsection \<open>time.Time and time.Duration\<close>

text \<open>
  An instant is a count of nanoseconds; \<open>t.Sub(u)\<close> is the duration \<open>t - u\<close>,
  saturated at the least and the greatest int64. \<open>Seconds\<close> is
  \<^verbatim>\<open>sec := d / Second; nsec := d % Second; return float64(sec) + float64(nsec)/1e9\<close>
  with Go's division, which truncates towards zero.
\<close>

definition Sub :: "int \<Rightarrow> int \<Rightarrow> int" where
  "Sub t u =
     (let d = t - u
      in if d < - (2 ^ 63) then - (2 ^ 63) else if 2 ^ 63 - 1 < d then 2 ^ 63 - 1 else d)"

definition go_quot :: "int \<Rightarrow> int \<Rightarrow> int" where
  "go_quot a b = sgn a * sgn b * (\<bar>a\<bar> div \<bar>b\<bar>)"

definition go_rem :: "int \<Rightarrow> int \<Rightarrow> int" where
  "go_rem a b = a - b * go_quot a b"

definition Seconds :: "int \<Rightarrow> f64" where
  "Seconds d =
     (let sec = go_quot d 1000000000; nsec = go_rem d 1000000000
      in f64_add (f64_round (of_int sec)) (f64_div (f64_round (of_int nsec)) (Fin 1000000000)))"

subsection \<open>strings.HasSuffix and strings.Replace\<close>

definition HasSuffix :: "string \<Rightarrow> string \<Rightarrow> bool" where
  "HasSuffix s suffix =
     (length suffix \<le> length s \<and> drop (length s - length suffix) s = suffix)"

definition HasPrefix :: "string \<Rightarrow> string \<Rightarrow> bool" where
  "HasPrefix s prefix = (length prefix \<le> length s \<and> take (length prefix) s = prefix)"

text \<open>
  \<open>strings.Replace(s, old, new, 1)\<close>: the first occurrence of \<open>old\<close> in \<open>s\<close>
  is replaced (an empty \<open>old\<close> matches at the start), none if there is none.
\<close>

fun Replace :: "string \<Rightarrow> string \<Rightarrow> string \<Rightarrow> string" where
  "Replace [] old new = (if old = [] then new else [])"
| "Replace (c # s) old new =
     (if HasPrefix (c # s) old then new @ drop (length old) (c # s)
      else c # Replace s old new)"

subsection \<open>Data\<close>

text \<open>
  The values held by a \<open>common.MapStr\<close>: a string, an int64 or a float64.
  \<open>VIntUnspecified\<close> is an int64 whose value the language leaves to the
  implementation (the conversion of a float64 that int64 cannot represent).
\<close>

datatype val = VString string | VInt int64 | VFloat f64 | VIntUnspecified

type_synonym MapStr = "(string \<times> val) list"

definition setField :: "MapStr \<Rightarrow> string \<Rightarrow> val \<Rightarrow> MapStr" where
  "setField flds name v = AList.update name v flds"

text \<open>A \<open>beat.Event\<close>; \<open>Fields = None\<close> is the nil map.\<close>

record Event =
  Timestamp :: int
  Fields :: "MapStr option"

record Query =
  Type :: string
  SQL :: string

record Config =
  Queries :: "Query list"
  DeltaWildcard :: string
  DeltaKeyWildcard :: string

text \<open>
  The beater: its configuration, the two maps of the rate state, and the events
  handed to \<open>client.Publish\<close> so far.
\<close>

record Mysqlbeat =
  config :: Config
  client :: "Event list"
  oldValues :: "string \<rightharpoonup> val"
  oldValuesAge :: "string \<rightharpoonup> int"

definition queryTypeSingleRow :: string where "queryTypeSingleRow = ''single-row''"
definition queryTypeMultipleRows :: string where "queryTypeMultipleRows = ''multiple-rows''"
definition queryTypeTwoColumns :: string where "queryTypeTwoColumns = ''two-columns''"
definition queryTypeSlaveDelay :: string where "queryTypeSlaveDelay = ''show-slave-delay''"
definition columnNameSlaveDelay :: string where "columnNameSlaveDelay = ''Seconds_Behind_Master''"

datatype columnType = columnTypeString | columnTypeInt | columnTypeFloat

datatype error =
  QueryError | ScanError | MissingKeyColumn | UnknownQueryType | PanicIndexOutOfRange

text \<open>
  \<open>PanicIndexOutOfRange\<close> is the run-time panic of an index past the end of a slice;
  it is not an error value, and unwinds through every caller.
\<close>

subsection \<open>The cursor of database/sql\<close>

text \<open>
  \<open>rows.Next()\<close> moves to the next row and says whether there is one;
  \<open>rows.Scan(dest...)\<close> copies the current row, and fails when there is no current
  row or when the number of destinations is not the number of cells. A cell is the
  text of its \<open>sql.RawBytes\<close> (NULL is the empty text).
\<close>

record Rows =
  Columns :: "string list"
  pending :: "string list list"
  lastcols :: "string list option"

definition Next :: "Rows \<Rightarrow> bool \<times> Rows" where
  "Next rows =
     (case pending rows of
        [] \<Rightarrow> (False, rows\<lparr>lastcols := None\<rparr>)
      | r # rs \<Rightarrow> (True, rows\<lparr>pending := rs, lastcols := Some r\<rparr>))"

definition Scan :: "Rows \<Rightarrow> nat \<Rightarrow> error + string list" where
  "Scan rows n =
     (case lastcols rows of
        None \<Rightarrow> Inl ScanError
      | Some r \<Rightarrow> if length r = n then Inr r else Inl ScanError)"

subsection \<open>The value typer (the parsing block of both assembly functions)\<close>

record strconv =
  ParseInt :: "string \<Rightarrow> int64 option"
  ParseFloat :: "string \<Rightarrow> f64 option"

text \<open>
  \<^verbatim>\<open>
  strColType := columnTypeString
  nColValue, err := strconv.ParseInt(strColValue, 0, 64)
  if err == nil { strColType = columnTypeInt }
  fColValue, err := strconv.ParseFloat(strColValue, 64)
  if err == nil { if strColType == columnTypeString { strColType = columnTypeFloat } }
  \<close>
  The result is \<open>(strColType, nColValue, fColValue)\<close>. The number returned beside a
  non-nil error is never read by the program; it is \<open>0\<close> here.
\<close>

definition typeColumn :: "strconv \<Rightarrow> string \<Rightarrow> columnType \<times> int64 \<times> f64" where
  "typeColumn L strColValue =
     (let strColType = columnTypeString;
          nParsed = ParseInt L strColValue;
          strColType = (if nParsed \<noteq> None then columnTypeInt else strColType);
          fParsed = ParseFloat L strColValue;
          strColType =
            (if fParsed \<noteq> None
             then (if strColType = columnTypeString then columnTypeFloat else strColType)
             else strColType)
      in (strColType,
          (case nParsed of Some n \<Rightarrow> n | None \<Rightarrow> 0),
          (case fParsed of Some f \<Rightarrow> f | None \<Rightarrow> Fin 0)))"

text \<open>
  The value stored or emitted as it is:
  \<^verbatim>\<open>
  if strColType == columnTypeString { ... = strColValue }
  else if strColType == columnTypeInt { ... = nColValue }
  else if strColType == columnTypeFloat { ... = fColValue }
  \<close>
\<close>

definition typedValue :: "string \<Rightarrow> columnType \<times> int64 \<times> f64 \<Rightarrow> val" where
  "typedValue strColValue typed =
     (case typed of (strColType, nColValue, fColValue) \<Rightarrow>
        if strColType = columnTypeString then VString strColValue
        else if strColType = columnTypeInt then VInt nColValue
        else VFloat fColValue)"

subsection \<open>The rate block\<close>

text \<open>
  The block of \<open>generateEventFromRow\<close> from \<^verbatim>\<open>_, exists = bt.oldValues[strKey]\<close> to
  the end of its \<open>else\<close>; \<open>appendRowToEvent\<close> repeats it word for word with
  \<open>strColName\<close> for \<open>strKey\<close>. A failed type assertion
  \<^verbatim>\<open>oldVal, _ := bt.oldValues[strKey].(int64)\<close> leaves \<open>oldVal\<close> zero.
\<close>

definition calcInt :: "int64 option \<Rightarrow> val" where
  "calcInt r = (case r of Some n \<Rightarrow> VInt n | None \<Rightarrow> VIntUnspecified)"

definition trackDelta ::
  "Mysqlbeat \<Rightarrow> MapStr \<Rightarrow> string \<Rightarrow> string \<Rightarrow> string \<Rightarrow> columnType \<times> int64 \<times> f64 \<Rightarrow> int
     \<Rightarrow> Mysqlbeat \<times> MapStr" where
  "trackDelta bt flds strKey strEventColName strColValue typed rowAge =
     (case typed of (strColType, nColValue, fColValue) \<Rightarrow>
      (case oldValues bt strKey of
         None \<Rightarrow>
           (bt\<lparr>oldValuesAge := (oldValuesAge bt)(strKey \<mapsto> rowAge),
               oldValues := (oldValues bt)(strKey \<mapsto> typedValue strColValue typed)\<rparr>,
            flds)
       | Some stored \<Rightarrow>
          (case oldValuesAge bt strKey of
             None \<Rightarrow> (bt, flds)
           | Some dtOldAge \<Rightarrow>
               let delta = Sub rowAge dtOldAge
               in if strColType = columnTypeInt then
                    let oldVal = (case stored of VInt n \<Rightarrow> n | _ \<Rightarrow> 0);
                        calcVal =
                          (if sint oldVal < sint nColValue
                           then roundF2I
                                  (f64_div (f64_of_int64 (nColValue - oldVal)) (Seconds delta))
                                  (Fin (1 / 2))
                           else Some 0)
                    in (bt\<lparr>oldValues := (oldValues bt)(strKey \<mapsto> VInt nColValue),
                            oldValuesAge := (oldValuesAge bt)(strKey \<mapsto> rowAge)\<rparr>,
                        setField flds strEventColName (calcInt calcVal))
                  else if strColType = columnTypeFloat then
                    let oldVal = (case stored of VFloat f \<Rightarrow> f | _ \<Rightarrow> Fin 0);
                        calcVal =
                          (if f64_gt fColValue oldVal
                           then f64_div (f64_sub fColValue oldVal) (Seconds delta)
                           else Fin 0)
                    in (bt\<lparr>oldValues := (oldValues bt)(strKey \<mapsto> VFloat fColValue),
                            oldValuesAge := (oldValuesAge bt)(strKey \<mapsto> rowAge)\<rparr>,
                        setField flds strEventColName (VFloat calcVal))
                  else (bt, setField flds strEventColName (VString strColValue)))))"

subsection \<open>getKeyFromRow\<close>

fun getKeyLoop :: "string \<Rightarrow> (string \<times> string) list \<Rightarrow> string \<times> bool \<Rightarrow> string \<times> bool" where
  "getKeyLoop wildcard [] acc = acc"
| "getKeyLoop wildcard ((column, col) # rest) (strKey, keyFound) =
     (if HasSuffix column wildcard then getKeyLoop wildcard rest (strKey @ col, True)
      else getKeyLoop wildcard rest (strKey, keyFound))"

definition getKeyFromRow :: "Mysqlbeat \<Rightarrow> string list \<Rightarrow> string list \<Rightarrow> error + string" where
  "getKeyFromRow bt values columns =
     (case getKeyLoop (DeltaKeyWildcard (config bt)) (zip columns values) ([], False) of
        (strKey, keyFound) \<Rightarrow> if keyFound then Inr strKey else Inl MissingKeyColumn)"

subsection \<open>generateEmptyEvent and generateEventFromRow\<close>

definition emptyFields :: "string \<Rightarrow> MapStr" where
  "emptyFields queryType = [(''type'', VString queryType)]"

definition generateEmptyEvent :: "string \<Rightarrow> int \<Rightarrow> Event" where
  "generateEmptyEvent queryType rowAge =
     \<lparr>Timestamp = rowAge, Fields = Some (emptyFields queryType)\<rparr>"

text \<open>One turn of the loop over the columns of \<open>generateEventFromRow\<close>.\<close>

definition processColumn ::
  "strconv \<Rightarrow> string \<Rightarrow> string list \<Rightarrow> string list \<Rightarrow> int \<Rightarrow> Mysqlbeat \<Rightarrow> MapStr
     \<Rightarrow> string \<Rightarrow> string \<Rightarrow> Mysqlbeat \<times> (error + MapStr)" where
  "processColumn L queryType values columns rowAge bt flds strColName strColValue =
     (if queryType = queryTypeSlaveDelay \<and> strColName \<noteq> columnNameSlaveDelay
      then (bt, Inr flds)
      else
        let strEventColName =
              (if HasSuffix strColName (DeltaKeyWildcard (config bt))
               then Replace strColName (DeltaKeyWildcard (config bt)) []
               else if HasSuffix strColName (DeltaWildcard (config bt))
               then Replace strColName (DeltaWildcard (config bt)) ''_PERSECOND''
               else strColName);
            typed = typeColumn L strColValue
        in if (queryType = queryTypeSingleRow \<or> queryType = queryTypeMultipleRows)
              \<and> HasSuffix strColName (DeltaWildcard (config bt))
           then
             (if queryType = queryTypeSingleRow
              then (case trackDelta bt flds strColName strEventColName strColValue typed rowAge of
                      (bt', flds') \<Rightarrow> (bt', Inr flds'))
              else (case getKeyFromRow bt values columns of
                      Inl err \<Rightarrow> (bt, Inl err)
                    | Inr strKey \<Rightarrow>
                       (case trackDelta bt flds (strKey @ strColName) strEventColName
                               strColValue typed rowAge of
                          (bt', flds') \<Rightarrow> (bt', Inr flds'))))
           else (bt, Inr (setField flds strEventColName (typedValue strColValue typed))))"

fun columnsLoop ::
  "strconv \<Rightarrow> string \<Rightarrow> string list \<Rightarrow> string list \<Rightarrow> int \<Rightarrow> Mysqlbeat \<Rightarrow> MapStr
     \<Rightarrow> (string \<times> string) list \<Rightarrow> Mysqlbeat \<times> (error + MapStr)" where
  "columnsLoop L queryType values columns rowAge bt flds [] = (bt, Inr flds)"
| "columnsLoop L queryType values columns rowAge bt flds ((strColName, col) # rest) =
     (case processColumn L queryType values columns rowAge bt flds strColName col of
        (bt', Inl err) \<Rightarrow> (bt', Inl err)
      | (bt', Inr flds') \<Rightarrow> columnsLoop L queryType values columns rowAge bt' flds' rest)"

text \<open>
  \<open>row\<close> is the cursor as \<open>rows.Next()\<close> left it. The loop fills the map of
  the event that \<open>generateEmptyEvent\<close> made; after the loop,
  \<^verbatim>\<open>if len(event.Fields) == 1 { event.Fields = nil }\<close>, and the event is returned.
  An error returns no event; what the columns before it stored in the beater stays.
\<close>

definition generateEventFromRow ::
  "strconv \<Rightarrow> Mysqlbeat \<Rightarrow> Rows \<Rightarrow> string list \<Rightarrow> string \<Rightarrow> int
     \<Rightarrow> Mysqlbeat \<times> (error + Event)" where
  "generateEventFromRow L bt row columns queryType rowAge =
     (let event = generateEmptyEvent queryType rowAge
      in case Scan row (length columns) of
           Inl err \<Rightarrow> (bt, Inl err)
         | Inr values \<Rightarrow>
            (case columnsLoop L queryType values columns rowAge bt (emptyFields queryType)
                    (zip columns values) of
               (bt', Inl err) \<Rightarrow> (bt', Inl err)
             | (bt', Inr flds) \<Rightarrow>
                 (bt', Inr (event\<lparr>Fields := (if length flds = 1 then None else Some flds)\<rparr>))))"

subsection \<open>appendRowToEvent\<close>

definition index :: "'a list \<Rightarrow> nat \<Rightarrow> error + 'a" where
  "index xs i = (if i < length xs then Inr (xs ! i) else Inl PanicIndexOutOfRange)"

text \<open>
  \<open>flds\<close> is \<open>event.Fields\<close>, the map that \<open>generateEmptyEvent\<close> made for the
  event at the only call of this function. The function reads \<open>values[0]\<close> and
  \<open>values[1]\<close> right after the scan.
\<close>

definition appendRowToEvent ::
  "strconv \<Rightarrow> Mysqlbeat \<Rightarrow> MapStr \<Rightarrow> Rows \<Rightarrow> string list \<Rightarrow> int
     \<Rightarrow> Mysqlbeat \<times> (error + MapStr)" where
  "appendRowToEvent L bt flds row columns rowAge =
     (case Scan row (length columns) of
        Inl err \<Rightarrow> (bt, Inl err)
      | Inr values \<Rightarrow>
         (case index values 0 of
            Inl panic \<Rightarrow> (bt, Inl panic)
          | Inr strColName \<Rightarrow>
             (case index values 1 of
                Inl panic \<Rightarrow> (bt, Inl panic)
              | Inr strColValue \<Rightarrow>
                  let strEventColName =
                        Replace strColName (DeltaWildcard (config bt)) ''_PERSECOND'';
                      typed = typeColumn L strColValue
                  in if HasSuffix strColName (DeltaWildcard (config bt))
                     then (case trackDelta bt flds strColName strEventColName strColValue
                                  typed rowAge of
                             (bt', flds') \<Rightarrow> (bt', Inr flds'))
                     else (bt, Inr (setField flds strEventColName
                                      (typedValue strColValue typed))))))"

subsection \<open>iterateQuery\<close>

function multipleRowsLoop ::
  "strconv \<Rightarrow> string list \<Rightarrow> string \<Rightarrow> int \<Rightarrow> Rows \<Rightarrow> Mysqlbeat \<Rightarrow> Event list
     \<Rightarrow> Mysqlbeat \<times> Event list \<times> error option" where
  "multipleRowsLoop L columns queryType dtNow rows bt events =
     (if fst (Next rows)
      then (case generateEventFromRow L bt (snd (Next rows)) columns queryType dtNow of
              (bt', Inl err) \<Rightarrow> (bt', events, Some err)
            | (bt', Inr event) \<Rightarrow>
                multipleRowsLoop L columns queryType dtNow (snd (Next rows)) bt'
                  (events @ [event]))
      else (bt, events, None))"
  by pat_completeness auto
termination
  by (relation "measure (\<lambda>(L, columns, queryType, dtNow, rows, bt, events). length (pending rows))")
     (auto simp add: Next_def split: list.splits)

declare multipleRowsLoop.simps [simp del]

function twoColumnsLoop ::
  "strconv \<Rightarrow> string list \<Rightarrow> int \<Rightarrow> Rows \<Rightarrow> Mysqlbeat \<Rightarrow> MapStr
     \<Rightarrow> Mysqlbeat \<times> (error + MapStr)" where
  "twoColumnsLoop L columns dtNow rows bt flds =
     (if fst (Next rows)
      then (case appendRowToEvent L bt flds (snd (Next rows)) columns dtNow of
              (bt', Inl err) \<Rightarrow> (bt', Inl err)
            | (bt', Inr flds') \<Rightarrow> twoColumnsLoop L columns dtNow (snd (Next rows)) bt' flds')
      else (bt, Inr flds))"
  by pat_completeness auto
termination
  by (relation "measure (\<lambda>(L, columns, dtNow, rows, bt, flds). length (pending rows))")
     (auto simp add: Next_def split: list.splits)

declare twoColumnsLoop.simps [simp del]

text \<open>
  \<open>db\<close> is \<open>db.Query\<close>: the cursor a query text opens, \<open>None\<close> when the query
  fails. \<open>dtNow\<close> is the reading of \<open>time.Now()\<close>. The result is the pair
  \<open>(events, err)\<close> the function returns, beside the beater as the call left it. The
  argument \<open>i\<close> of the source is only logged.
\<close>

definition iterateQuery ::
  "strconv \<Rightarrow> (string \<Rightarrow> Rows option) \<Rightarrow> int \<Rightarrow> Mysqlbeat \<Rightarrow> string \<Rightarrow> string
     \<Rightarrow> Mysqlbeat \<times> Event list \<times> error option" where
  "iterateQuery L db dtNow bt queryType queryStr =
     (case db queryStr of
        None \<Rightarrow> (bt, [], Some QueryError)
      | Some rows \<Rightarrow>
          let columns = Columns rows
          in if queryType = queryTypeSingleRow \<or> queryType = queryTypeSlaveDelay then
               (case generateEventFromRow L bt (snd (Next rows)) columns queryType dtNow of
                  (bt', Inl err) \<Rightarrow> (bt', [], Some err)
                | (bt', Inr event) \<Rightarrow> (bt', [event], None))
             else if queryType = queryTypeMultipleRows then
               multipleRowsLoop L columns queryType dtNow rows bt []
             else if queryType = queryTypeTwoColumns then
               (let event = generateEmptyEvent queryType dtNow
                in case twoColumnsLoop L columns dtNow rows bt (emptyFields queryType) of
                     (bt', Inl err) \<Rightarrow> (bt', [], Some err)
                   | (bt', Inr flds) \<Rightarrow> (bt', [event\<lparr>Fields := Some flds\<rparr>], None))
             else (bt, [], Some UnknownQueryType))"

subsection \<open>beat\<close>

text \<open>
  One cycle: the queries in order, each published when it returns no error; the first
  error ends the cycle. \<open>now i\<close> is the clock at query \<open>i\<close>. (\<open>sql.Open\<close>
  opens no connection; its error, for a malformed connection string, is left out.)
\<close>

fun beatLoop ::
  "strconv \<Rightarrow> (string \<Rightarrow> Rows option) \<Rightarrow> (nat \<Rightarrow> int) \<Rightarrow> nat \<Rightarrow> Query list \<Rightarrow> Mysqlbeat
     \<Rightarrow> Mysqlbeat \<times> error option" where
  "beatLoop L db now i [] bt = (bt, None)"
| "beatLoop L db now i (query # rest) bt =
     (case iterateQuery L db (now i) bt (Type query) (SQL query) of
        (bt', events, Some err) \<Rightarrow> (bt', Some err)
      | (bt', events, None) \<Rightarrow>
          beatLoop L db now (i + 1) rest (bt'\<lparr>client := client bt' @ events\<rparr>))"

definition beat ::
  "strconv \<Rightarrow> (string \<Rightarrow> Rows option) \<Rightarrow> (nat \<Rightarrow> int) \<Rightarrow> Mysqlbeat \<Rightarrow> Mysqlbeat \<times> error option" where
  "beat L db now bt = beatLoop L db now 0 (Queries (config bt)) bt"

subsection \<open>The rounding rule of the specification\<close>

text \<open>
  Round half up as the specification words it: a fractional part of at least one half
  goes to the ceiling, any other to the floor.
\<close>

definition round_half_up :: "real \<Rightarrow> int" where
  "round_half_up x = (if 1 / 2 \<le> frac x then \<lceil>x\<rceil> else \<lfloor>x\<rfloor>)"

subsection \<open>Concrete inputs\<close>

text \<open>
  The inputs of the examples below. \<open>exampleStrconv\<close> is a finite table that agrees
  with \<open>strconv\<close> on the cells the examples use; the configuration has the markers
  \<open>_delta\<close> and \<open>_key\<close>; \<open>exampleDb\<close> maps a query text to its result set; the
  clock reads \<open>0\<close> at every query.
\<close>

definition exampleStrconv :: strconv where
  "exampleStrconv =
     \<lparr>ParseInt = map_of
        [(''3'', 3), (''5'', 5), (''10'', 10), (''100'', 100), (''150'', 150),
         (''-4611686018427387904'', - 4611686018427387904),
         (''6917529027641081856'', 6917529027641081856)],
      ParseFloat = map_of
        [(''3'', Fin 3), (''5'', Fin 5), (''10'', Fin 10), (''100'', Fin 100),
         (''150'', Fin 150), (''1.5'', Fin (3 / 2)), (''5.5'', Fin (11 / 2)),
         (''-4611686018427387904'', Fin (- 4611686018427387904)),
         (''6917529027641081856'', Fin 6917529027641081856)]\<rparr>"

definition exampleConfig :: "Query list \<Rightarrow> Config" where
  "exampleConfig qs = \<lparr>Queries = qs, DeltaWildcard = ''_delta'', DeltaKeyWildcard = ''_key''\<rparr>"

definition exampleBeat ::
  "Query list \<Rightarrow> (string \<rightharpoonup> val) \<Rightarrow> (string \<rightharpoonup> int) \<Rightarrow> Mysqlbeat" where
  "exampleBeat qs vals ages =
     \<lparr>config = exampleConfig qs, client = [], oldValues = vals, oldValuesAge = ages\<rparr>"

definition exampleRows :: "string list \<Rightarrow> string list list \<Rightarrow> Rows" where
  "exampleRows cols rs = \<lparr>Columns = cols, pending = rs, lastcols = None\<rparr>"

definition exampleQueries :: "Query list" where
  "exampleQueries =
     [\<lparr>Type = ''multiple-rows'', SQL = ''SELECT A''\<rparr>,
      \<lparr>Type = ''single-row'', SQL = ''SELECT B''\<rparr>]"

definition exampleClock :: "nat \<Rightarrow> int" where
  "exampleClock i = 0"

definition exampleDb :: "string \<Rightarrow> Rows option" where
  "exampleDb =
     map_of
       [(''SELECT A'', exampleRows [''name'', ''n_delta''] [[''a'', ''5'']]),
        (''SELECT B'', exampleRows [''Threads_running''] [[''5'']]),
        (''SELECT C'', exampleRows [''name_key'', ''n_delta''] [[''a'', ''5''], [''a'', ''5'']]),
        (''SELECT D'', exampleRows [''Queries_delta''] [[''100'']]),
        (''SELECT E'', exampleRows [''Variable_name'', ''Value''] []),
        (''SELECT F'', exampleRows [''Seconds_Behind_Master''] []),
        (''SELECT G'', exampleRows [''Threads_running'', ''Queries_delta''] [[''5'', ''100'']]),
        (''SELECT H'', exampleRows [''Threads_running'', ''Queries_delta''] [[''5'', ''150'']]),
        (''SHOW SLAVE STATUS'',
           exampleRows [''Seconds_Behind_Master'', ''Other_Column''] [[''3'', ''x'']])]"


section \<open>Properties\<close>

subsection \<open>Auxiliary facts\<close>

lemma sint_word_of_int_64:
  "- (2 ^ 63) \<le> k \<Longrightarrow> k < 2 ^ 63 \<Longrightarrow> sint (word_of_int k :: int64) = k"
  by (simp add: sint_sbintrunc' signed_take_bit_int_eq_self)

lemma roundF2I_Fin:
  "roundF2I (Fin v) (Fin (1 / 2)) =
     int64_of_f64
       (Fin (of_int (if 1 / 2 \<le> v - of_int (trunc v) then \<lceil>v\<rceil> else \<lfloor>v\<rfloor>)))"
  by (auto simp add: roundF2I_def Let_def)

lemma int64_of_f64_int:
  "- (2 ^ 63) \<le> k \<Longrightarrow> k < 2 ^ 63 \<Longrightarrow> int64_of_f64 (Fin (of_int k)) = Some (word_of_int k)"
  by (simp add: trunc_def)

lemma roundF2I_nonneg:
  assumes "0 \<le> q" "q \<le> 2 ^ 63 - 1"
  shows "roundF2I (Fin q) (Fin (1 / 2)) = Some (word_of_int (round_half_up q))"
proof -
  have tr: "trunc q = \<lfloor>q\<rfloor>" using assms(1) by (simp add: trunc_def)
  have f: "0 \<le> \<lfloor>q\<rfloor>" using assms(1) by simp
  have c: "\<lceil>q\<rceil> < 2 ^ 63" using assms(2) by (simp add: ceiling_less_iff)
  have fc: "\<lfloor>q\<rfloor> \<le> \<lceil>q\<rceil>" by (simp add: floor_le_ceiling)
  have r: "- (2 ^ 63) \<le> round_half_up q \<and> round_half_up q < 2 ^ 63"
    using f c fc by (auto simp add: round_half_up_def)
  have "roundF2I (Fin q) (Fin (1 / 2)) = int64_of_f64 (Fin (of_int (round_half_up q)))"
    unfolding roundF2I_Fin tr by (simp add: round_half_up_def frac_def)
  then show ?thesis
    using r int64_of_f64_int [of "round_half_up q"] by (simp del: int64_of_f64.simps)
qed

text \<open>
  Rules that evaluate the float operations on literals. The binade search is unfolded
  only where its test is decided.
\<close>

lemma binade_up_stop: "x < 2 \<Longrightarrow> binade_up n x e = e"
  by (cases n) auto

lemma binade_up_step:
  "\<not> x < 2 \<Longrightarrow> 0 < n \<Longrightarrow> binade_up n x e = binade_up (n - 1) (x / 2) (e + 1)"
  by (cases n) auto

lemma binade_down_stop: "1 \<le> x \<Longrightarrow> binade_down n x e = e"
  by (cases n) auto

lemma binade_down_step:
  "\<not> 1 \<le> x \<Longrightarrow> 0 < n \<Longrightarrow> binade_down n x e = binade_down (n - 1) (x * 2) (e - 1)"
  by (cases n) auto

lemmas f64_eval =
  f64_round_def f64_exponent_def round_half_even_def pow2_def binade_up_stop binade_up_step
  binade_down_stop binade_down_step Let_def Seconds_def go_quot_def go_rem_def
  f64_of_int64_def Sub_def roundF2I_def trunc_def f64_sub_def

text \<open>
  The rounding on known values: \<open>0.1\<close> is the binary64
  \<open>3602879701896397 / 2 ^ 55\<close>, and the ties \<open>2 ^ 53 + 1\<close> and \<open>2 ^ 53 + 3\<close>
  go to the even significand.
\<close>

lemma f64_round_examples:
  "f64_round (1 / 10) = Fin (3602879701896397 / 36028797018963968)"
  "f64_round 9007199254740993 = Fin 9007199254740992"
  "f64_round 9007199254740995 = Fin 9007199254740996"
  "f64_round (- 5 / 2) = Fin (- 5 / 2)"
  by (simp_all add: f64_eval)

lemma f64_ge_not_gt: "f64_ge a b \<Longrightarrow> \<not> f64_gt b a"
  by (cases a; cases b) auto

text \<open>The typer, by the outcome of the two parses.\<close>

lemma typeColumn_int:
  "ParseInt L s = Some n \<Longrightarrow> \<exists>f. typeColumn L s = (columnTypeInt, n, f)"
  by (simp add: typeColumn_def)

lemma typeColumn_float:
  "ParseInt L s = None \<Longrightarrow> ParseFloat L s = Some f \<Longrightarrow>
   typeColumn L s = (columnTypeFloat, 0, f)"
  by (simp add: typeColumn_def)

lemma typeColumn_string:
  "ParseInt L s = None \<Longrightarrow> ParseFloat L s = None \<Longrightarrow>
   typeColumn L s = (columnTypeString, 0, Fin 0)"
  by (simp add: typeColumn_def)

text \<open>The four paths of the rate block.\<close>

lemma trackDelta_cold:
  "oldValues bt k = None \<Longrightarrow>
     trackDelta bt flds k ev s typed t0 =
       (bt\<lparr>oldValuesAge := (oldValuesAge bt)(k \<mapsto> t0),
           oldValues := (oldValues bt)(k \<mapsto> typedValue s typed)\<rparr>, flds)"
  by (simp add: trackDelta_def split: prod.splits)

lemma trackDelta_int:
  "oldValues bt k = Some stored \<Longrightarrow> oldValuesAge bt k = Some t0 \<Longrightarrow>
     trackDelta bt flds k ev s (columnTypeInt, n, f) t1 =
       (bt\<lparr>oldValues := (oldValues bt)(k \<mapsto> VInt n),
           oldValuesAge := (oldValuesAge bt)(k \<mapsto> t1)\<rparr>,
        setField flds ev
          (calcInt (if sint (case stored of VInt m \<Rightarrow> m | _ \<Rightarrow> 0) < sint n
                    then roundF2I
                           (f64_div (f64_of_int64 (n - (case stored of VInt m \<Rightarrow> m | _ \<Rightarrow> 0)))
                              (Seconds (Sub t1 t0)))
                           (Fin (1 / 2))
                    else Some 0)))"
  by (simp add: trackDelta_def Let_def)

lemma trackDelta_float:
  "oldValues bt k = Some stored \<Longrightarrow> oldValuesAge bt k = Some t0 \<Longrightarrow>
     trackDelta bt flds k ev s (columnTypeFloat, n, f) t1 =
       (bt\<lparr>oldValues := (oldValues bt)(k \<mapsto> VFloat f),
           oldValuesAge := (oldValuesAge bt)(k \<mapsto> t1)\<rparr>,
        setField flds ev
          (VFloat (if f64_gt f (case stored of VFloat g \<Rightarrow> g | _ \<Rightarrow> Fin 0)
                   then f64_div (f64_sub f (case stored of VFloat g \<Rightarrow> g | _ \<Rightarrow> Fin 0))
                          (Seconds (Sub t1 t0))
                   else Fin 0)))"
  by (simp add: trackDelta_def Let_def)

lemma trackDelta_string:
  "oldValues bt k = Some stored \<Longrightarrow> oldValuesAge bt k = Some t0 \<Longrightarrow>
     trackDelta bt flds k ev s (columnTypeString, n, f) t1 =
       (bt, setField flds ev (VString s))"
  by (simp add: trackDelta_def Let_def)

text \<open>The cursor and the two loops over it.\<close>

lemma Next_Nil: "pending rows = [] \<Longrightarrow> Next rows = (False, rows\<lparr>lastcols := None\<rparr>)"
  by (simp add: Next_def)

lemma Next_Cons:
  "pending rows = r # rs \<Longrightarrow> Next rows = (True, rows\<lparr>pending := rs, lastcols := Some r\<rparr>)"
  by (simp add: Next_def)

lemma multipleRowsLoop_Nil:
  "pending rows = [] \<Longrightarrow>
   multipleRowsLoop L columns queryType dtNow rows bt events = (bt, events, None)"
  by (subst multipleRowsLoop.simps) (simp add: Next_Nil)

lemma multipleRowsLoop_Cons:
  "pending rows = r # rs \<Longrightarrow>
   multipleRowsLoop L columns queryType dtNow rows bt events =
     (case generateEventFromRow L bt (rows\<lparr>pending := rs, lastcols := Some r\<rparr>) columns
             queryType dtNow of
        (bt', Inl err) \<Rightarrow> (bt', events, Some err)
      | (bt', Inr event) \<Rightarrow>
          multipleRowsLoop L columns queryType dtNow
            (rows\<lparr>pending := rs, lastcols := Some r\<rparr>) bt' (events @ [event]))"
  by (subst multipleRowsLoop.simps) (simp add: Next_Cons)

lemma twoColumnsLoop_Nil:
  "pending rows = [] \<Longrightarrow> twoColumnsLoop L columns dtNow rows bt flds = (bt, Inr flds)"
  by (subst twoColumnsLoop.simps) (simp add: Next_Nil)

lemma twoColumnsLoop_Cons:
  "pending rows = r # rs \<Longrightarrow>
   twoColumnsLoop L columns dtNow rows bt flds =
     (case appendRowToEvent L bt flds (rows\<lparr>pending := rs, lastcols := Some r\<rparr>) columns
             dtNow of
        (bt', Inl err) \<Rightarrow> (bt', Inl err)
      | (bt', Inr flds') \<Rightarrow>
          twoColumnsLoop L columns dtNow (rows\<lparr>pending := rs, lastcols := Some r\<rparr>) bt' flds')"
  by (subst twoColumnsLoop.simps) (simp add: Next_Cons)

lemma queryType_distinct:
  "queryTypeMultipleRows \<noteq> queryTypeSingleRow" "queryTypeMultipleRows \<noteq> queryTypeSlaveDelay"
  "queryTypeTwoColumns \<noteq> queryTypeSingleRow" "queryTypeTwoColumns \<noteq> queryTypeSlaveDelay"
  "queryTypeTwoColumns \<noteq> queryTypeMultipleRows" "queryTypeSingleRow \<noteq> queryTypeSlaveDelay"
  by (simp_all add: queryTypeMultipleRows_def queryTypeSingleRow_def queryTypeSlaveDelay_def
        queryTypeTwoColumns_def)

text \<open>Rules that run the beater on the concrete inputs.\<close>

lemmas beat_eval =
  beat_def iterateQuery_def generateEventFromRow_def generateEmptyEvent_def
  appendRowToEvent_def Scan_def Next_def
  processColumn_def typeColumn_def typedValue_def trackDelta_def getKeyFromRow_def
  HasSuffix_def HasPrefix_def setField_def emptyFields_def index_def calcInt_def
  queryTypeSingleRow_def queryTypeMultipleRows_def queryTypeTwoColumns_def
  queryTypeSlaveDelay_def columnNameSlaveDelay_def
  multipleRowsLoop_Nil multipleRowsLoop_Cons twoColumnsLoop_Nil twoColumnsLoop_Cons
  exampleBeat_def exampleConfig_def exampleStrconv_def exampleRows_def exampleDb_def
  exampleQueries_def exampleClock_def Let_def Sub_def


subsection \<open>The value typer\<close>

text \<open>
  Claim C7. For every raw cell the typer takes the integer parse when it succeeds, else
  the float parse when that succeeds, else the raw text unchanged as a string. In
  particular a cell that parses both as an integer and as a float is typed integer,
  never float.
\<close>

theorem typeColumn_integer_first:
  "fst (typeColumn L s) =
     (case ParseInt L s of
        Some n \<Rightarrow> columnTypeInt
      | None \<Rightarrow> (case ParseFloat L s of Some f \<Rightarrow> columnTypeFloat | None \<Rightarrow> columnTypeString))
   \<and> typedValue s (typeColumn L s) =
     (case ParseInt L s of
        Some n \<Rightarrow> VInt n
      | None \<Rightarrow> (case ParseFloat L s of Some f \<Rightarrow> VFloat f | None \<Rightarrow> VString s))
   \<and> (ParseInt L s \<noteq> None \<and> ParseFloat L s \<noteq> None \<longrightarrow>
        fst (typeColumn L s) = columnTypeInt \<and> fst (typeColumn L s) \<noteq> columnTypeFloat)"
  by (auto simp add: typeColumn_def typedValue_def split: option.splits)

text \<open>
  With parsers that read \<open>42\<close> both as an integer and as a float, and \<open>4.5\<close> as a
  float only: \<open>42\<close> is an integer, \<open>4.5\<close> a float, \<open>ON\<close> a string.
\<close>

theorem typeColumn_integer_first_witness:
  "fst (typeColumn \<lparr>ParseInt = map_of [(''42'', 42)],
                    ParseFloat = map_of [(''42'', Fin 42), (''4.5'', Fin (9 / 2))]\<rparr> ''42'')
     = columnTypeInt
   \<and> typedValue ''42''
        (typeColumn \<lparr>ParseInt = map_of [(''42'', 42)],
                     ParseFloat = map_of [(''42'', Fin 42), (''4.5'', Fin (9 / 2))]\<rparr> ''42'')
     = VInt 42
   \<and> typedValue ''4.5''
        (typeColumn \<lparr>ParseInt = map_of [(''42'', 42)],
                     ParseFloat = map_of [(''42'', Fin 42), (''4.5'', Fin (9 / 2))]\<rparr> ''4.5'')
     = VFloat (Fin (9 / 2))
   \<and> typedValue ''ON''
        (typeColumn \<lparr>ParseInt = map_of [(''42'', 42)],
                     ParseFloat = map_of [(''42'', Fin 42), (''4.5'', Fin (9 / 2))]\<rparr> ''ON'')
     = VString ''ON''"
  using typeColumn_integer_first
          [of "\<lparr>ParseInt = map_of [(''42'', 42)],
                ParseFloat = map_of [(''42'', Fin 42), (''4.5'', Fin (9 / 2))]\<rparr>" "''42''"]
        typeColumn_integer_first
          [of "\<lparr>ParseInt = map_of [(''42'', 42)],
                ParseFloat = map_of [(''42'', Fin 42), (''4.5'', Fin (9 / 2))]\<rparr>" "''4.5''"]
        typeColumn_integer_first
          [of "\<lparr>ParseInt = map_of [(''42'', 42)],
                ParseFloat = map_of [(''42'', Fin 42), (''4.5'', Fin (9 / 2))]\<rparr>" "''ON''"]
  by simp

subsection \<open>Rounding\<close>

text \<open>
  Claim C9. A raw rate \<open>x.5\<close> with \<open>x\<close> a non-negative integer rounds to \<open>x + 1\<close>.
  In general \<open>roundF2I\<close> converts the ceiling when the fractional part that
  \<open>math.Modf\<close> returns is at least one half, and the floor otherwise; for a raw rate
  within the range of int64, where the conversion is defined, that ceiling or floor is
  the integer returned.
\<close>

theorem roundF2I_round_half_up:
  "(0 \<le> x \<and> x + 1 < 2 ^ 63 \<longrightarrow>
      map_option sint (roundF2I (Fin (of_int x + 1 / 2)) (Fin (1 / 2))) = Some (x + 1))
   \<and> (- (2 ^ 63) \<le> v \<and> v \<le> 2 ^ 63 - 1 \<longrightarrow>
      map_option sint (roundF2I (Fin v) (Fin (1 / 2))) =
        Some (if 1 / 2 \<le> v - of_int (trunc v) then \<lceil>v\<rceil> else \<lfloor>v\<rfloor>))
   \<and> roundF2I (Fin v) (Fin (1 / 2)) =
        int64_of_f64
          (Fin (of_int (if 1 / 2 \<le> v - of_int (trunc v) then \<lceil>v\<rceil> else \<lfloor>v\<rfloor>)))"
proof -
  have general: "map_option sint (roundF2I (Fin w) (Fin (1 / 2))) =
        Some (if 1 / 2 \<le> w - of_int (trunc w) then \<lceil>w\<rceil> else \<lfloor>w\<rfloor>)"
    if a: "- (2 ^ 63) \<le> w" "w \<le> 2 ^ 63 - 1" for w :: real
  proof -
    have f: "- (2 ^ 63) \<le> \<lfloor>w\<rfloor>" using a(1) by (simp add: le_floor_iff)
    have c: "\<lceil>w\<rceil> < 2 ^ 63" using a(2) by (simp add: ceiling_less_iff)
    have fc: "\<lfloor>w\<rfloor> \<le> \<lceil>w\<rceil>" by (simp add: floor_le_ceiling)
    define k where "k = (if 1 / 2 \<le> w - of_int (trunc w) then \<lceil>w\<rceil> else \<lfloor>w\<rfloor>)"
    have k: "- (2 ^ 63) \<le> k" "k < 2 ^ 63" using f c fc by (auto simp add: k_def)
    have "roundF2I (Fin w) (Fin (1 / 2)) = int64_of_f64 (Fin (of_int k))"
      unfolding roundF2I_Fin k_def ..
    also have "\<dots> = Some (word_of_int k)" using k by (rule int64_of_f64_int)
    finally show ?thesis using k by (simp add: sint_word_of_int_64 k_def)
  qed
  have half: "map_option sint (roundF2I (Fin (of_int x + 1 / 2)) (Fin (1 / 2))) = Some (x + 1)"
    if a: "0 \<le> x" "x + 1 < 2 ^ 63"
  proof -
    have fl: "\<lfloor>of_int x + (1 / 2 :: real)\<rfloor> = x" by linarith
    have ce: "\<lceil>of_int x + (1 / 2 :: real)\<rceil> = x + 1" by linarith
    have tr: "trunc (of_int x + 1 / 2) = x" using a fl by (simp add: trunc_def)
    have lo: "- (2 ^ 63) \<le> (of_int x + 1 / 2 :: real)" using a by simp
    have "x + 1 \<le> 2 ^ 63 - 1" using a by simp
    then have "of_int (x + 1) \<le> (of_int (2 ^ 63 - 1) :: real)"
      by (rule of_int_le_iff [THEN iffD2])
    then have hi: "(of_int x + 1 / 2 :: real) \<le> 2 ^ 63 - 1" by simp
    show ?thesis using general [OF lo hi] by (simp add: tr ce)
  qed
  show ?thesis using general half roundF2I_Fin [of v] by blast
qed

text \<open>\<open>2.5\<close> rounds to \<open>3\<close>, \<open>2.25\<close> to \<open>2\<close> and \<open>2.75\<close> to \<open>3\<close>.\<close>

theorem roundF2I_round_half_up_witness:
  "map_option sint (roundF2I (Fin (5 / 2)) (Fin (1 / 2))) = Some 3
   \<and> map_option sint (roundF2I (Fin (9 / 4)) (Fin (1 / 2))) = Some 2
   \<and> map_option sint (roundF2I (Fin (11 / 4)) (Fin (1 / 2))) = Some 3"
  using roundF2I_round_half_up [of 2 "9 / 4"] roundF2I_round_half_up [of 2 "11 / 4"]
  by (simp add: trunc_def)

text \<open>
  For a negative raw value the fractional part of \<open>math.Modf\<close> is negative, never
  at least one half, so the floor is taken: \<open>- 2.5\<close> goes to \<open>- 3\<close>.
\<close>

lemma roundF2I_negative_half:
  "map_option sint (roundF2I (Fin (- 5 / 2)) (Fin (1 / 2))) = Some (- 3)"
  by (simp add: roundF2I_def trunc_def)

subsection \<open>The rate store\<close>

text \<open>
  Claim C1, as the code has it. The first observation of a fresh series key stores the
  typed value and the time, and leaves the fields of the record as they were: no rate
  field. A later observation of integer type \<open>v2\<close>, greater than the stored value
  \<open>v\<close> when that is an int64, emits \<open>roundF2I\<close> of the quotient and stores
  \<open>(v2, t1)\<close>. The quotient is the machine's: \<open>v2 - v\<close> is the int64 difference
  (which wraps), divided as a float64 by the float64 count of the seconds elapsed. When
  that quotient \<open>q\<close> is finite and \<open>0 \<le> q \<le> 2 ^ 63 - 1\<close>, the integer emitted
  is \<open>round_half_up q\<close>.
\<close>

theorem trackDelta_cold_start_then_rate:
  "(oldValues bt k = None \<longrightarrow>
      trackDelta bt flds k ev s (typeColumn L s) t0 =
        (bt\<lparr>oldValuesAge := (oldValuesAge bt)(k \<mapsto> t0),
            oldValues := (oldValues bt)(k \<mapsto> typedValue s (typeColumn L s))\<rparr>, flds))
   \<and> (oldValues bt k = Some (VInt v) \<and> oldValuesAge bt k = Some t0
        \<and> ParseInt L s = Some v2 \<and> sint v < sint v2 \<longrightarrow>
      trackDelta bt flds k ev s (typeColumn L s) t1 =
        (bt\<lparr>oldValues := (oldValues bt)(k \<mapsto> VInt v2),
            oldValuesAge := (oldValuesAge bt)(k \<mapsto> t1)\<rparr>,
         setField flds ev
           (calcInt (roundF2I (f64_div (f64_of_int64 (v2 - v)) (Seconds (Sub t1 t0)))
                       (Fin (1 / 2))))))
   \<and> (f64_div (f64_of_int64 (v2 - v)) (Seconds (Sub t1 t0)) = Fin q
        \<and> 0 \<le> q \<and> q \<le> 2 ^ 63 - 1 \<longrightarrow>
      calcInt (roundF2I (f64_div (f64_of_int64 (v2 - v)) (Seconds (Sub t1 t0))) (Fin (1 / 2)))
        = VInt (word_of_int (round_half_up q)))"
proof (intro conjI impI)
  assume "oldValues bt k = None"
  then show "trackDelta bt flds k ev s (typeColumn L s) t0 =
        (bt\<lparr>oldValuesAge := (oldValuesAge bt)(k \<mapsto> t0),
            oldValues := (oldValues bt)(k \<mapsto> typedValue s (typeColumn L s))\<rparr>, flds)"
    by (rule trackDelta_cold)
next
  assume h: "oldValues bt k = Some (VInt v) \<and> oldValuesAge bt k = Some t0
        \<and> ParseInt L s = Some v2 \<and> sint v < sint v2"
  then obtain f where ty: "typeColumn L s = (columnTypeInt, v2, f)"
    using typeColumn_int by blast
  show "trackDelta bt flds k ev s (typeColumn L s) t1 =
        (bt\<lparr>oldValues := (oldValues bt)(k \<mapsto> VInt v2),
            oldValuesAge := (oldValuesAge bt)(k \<mapsto> t1)\<rparr>,
         setField flds ev
           (calcInt (roundF2I (f64_div (f64_of_int64 (v2 - v)) (Seconds (Sub t1 t0)))
                       (Fin (1 / 2)))))"
    unfolding ty using h by (simp add: trackDelta_int)
next
  assume h: "f64_div (f64_of_int64 (v2 - v)) (Seconds (Sub t1 t0)) = Fin q
        \<and> 0 \<le> q \<and> q \<le> 2 ^ 63 - 1"
  then have "roundF2I (Fin q) (Fin (1 / 2)) = Some (word_of_int (round_half_up q))"
    by (simp add: roundF2I_nonneg)
  then show "calcInt (roundF2I (f64_div (f64_of_int64 (v2 - v)) (Seconds (Sub t1 t0)))
                 (Fin (1 / 2)))
               = VInt (word_of_int (round_half_up q))"
    using h by (simp add: calcInt_def)
qed

text \<open>
  The scenario of the specification: \<open>Queries_delta\<close> is \<open>100\<close> at time \<open>0\<close>
  (stored, nothing emitted) and \<open>150\<close> ten seconds later: \<open>Queries_PERSECOND = 5\<close>.
\<close>

theorem trackDelta_cold_start_then_rate_witness:
  "trackDelta (exampleBeat [] Map.empty Map.empty) [] ''Queries_delta'' ''Queries_PERSECOND''
      ''100'' (typeColumn exampleStrconv ''100'') 0 =
     ((exampleBeat [] Map.empty Map.empty)
        \<lparr>oldValuesAge := [''Queries_delta'' \<mapsto> 0],
         oldValues := [''Queries_delta'' \<mapsto> VInt 100]\<rparr>, [])
   \<and> trackDelta (exampleBeat [] [''Queries_delta'' \<mapsto> VInt 100] [''Queries_delta'' \<mapsto> 0]) []
       ''Queries_delta'' ''Queries_PERSECOND'' ''150'' (typeColumn exampleStrconv ''150'')
       10000000000 =
     ((exampleBeat [] [''Queries_delta'' \<mapsto> VInt 100] [''Queries_delta'' \<mapsto> 0])
        \<lparr>oldValues := [''Queries_delta'' \<mapsto> VInt 150],
         oldValuesAge := [''Queries_delta'' \<mapsto> 10000000000]\<rparr>,
      [(''Queries_PERSECOND'', VInt 5)])"
proof -
  have q: "f64_div (f64_of_int64 (150 - 100)) (Seconds (Sub 10000000000 0)) = Fin 5"
    by (simp add: f64_eval)
  have t: "typedValue ''100'' (typeColumn exampleStrconv ''100'') = VInt 100"
    by (simp add: typedValue_def typeColumn_def exampleStrconv_def)
  have cold: "trackDelta (exampleBeat [] Map.empty Map.empty) [] ''Queries_delta''
      ''Queries_PERSECOND'' ''100'' (typeColumn exampleStrconv ''100'') 0 =
     ((exampleBeat [] Map.empty Map.empty)
        \<lparr>oldValuesAge := [''Queries_delta'' \<mapsto> 0],
         oldValues := [''Queries_delta'' \<mapsto> VInt 100]\<rparr>, [])"
    using trackDelta_cold_start_then_rate
            [where bt = "exampleBeat [] Map.empty Map.empty" and k = "''Queries_delta''"
               and flds = "[]" and ev = "''Queries_PERSECOND''" and s = "''100''"
               and L = exampleStrconv and ?t0.0 = 0 and v = 0 and ?v2.0 = 0 and ?t1.0 = 0
               and q = 0]
          t
    by (simp add: exampleBeat_def)
  have rate: "trackDelta
       (exampleBeat [] [''Queries_delta'' \<mapsto> VInt 100] [''Queries_delta'' \<mapsto> 0]) []
       ''Queries_delta'' ''Queries_PERSECOND'' ''150'' (typeColumn exampleStrconv ''150'')
       10000000000 =
     ((exampleBeat [] [''Queries_delta'' \<mapsto> VInt 100] [''Queries_delta'' \<mapsto> 0])
        \<lparr>oldValues := [''Queries_delta'' \<mapsto> VInt 150],
         oldValuesAge := [''Queries_delta'' \<mapsto> 10000000000]\<rparr>,
      [(''Queries_PERSECOND'', VInt 5)])"
    using trackDelta_cold_start_then_rate
            [where bt = "exampleBeat [] [''Queries_delta'' \<mapsto> VInt 100]
                           [''Queries_delta'' \<mapsto> 0]"
               and k = "''Queries_delta''" and flds = "[]" and ev = "''Queries_PERSECOND''"
               and s = "''150''" and L = exampleStrconv and ?t0.0 = 0 and v = 100
               and ?v2.0 = 150 and ?t1.0 = 10000000000 and q = 5]
          q
    by (simp add: exampleBeat_def exampleStrconv_def round_half_up_def setField_def)
  show ?thesis
    using cold rate by simp
qed

text \<open>
  Claim C1 as stated fails where the stored value is not an int64. The first cell is
  \<open>1.5\<close>, stored as a float64 at time \<open>0\<close>; one second later the cell is \<open>3\<close>,
  of integer type and greater. The type assertion to int64 fails, the old value is read
  as \<open>0\<close>, and the field emitted is \<open>3\<close>, where round half up of
  \<open>(3 - 1.5) / 1\<close> is \<open>2\<close>.
\<close>

theorem mixed_type_rate_counterexample:
  "typedValue ''1.5'' (typeColumn exampleStrconv ''1.5'') = VFloat (Fin (3 / 2))
   \<and> fst (typeColumn exampleStrconv ''3'') = columnTypeInt
   \<and> (3 / 2 :: real) < 3
   \<and> snd (trackDelta
        (exampleBeat [] [''load_delta'' \<mapsto> VFloat (Fin (3 / 2))] [''load_delta'' \<mapsto> 0])
        [] ''load_delta'' ''load_PERSECOND'' ''3'' (typeColumn exampleStrconv ''3'') 1000000000)
      = [(''load_PERSECOND'', VInt 3)]
   \<and> round_half_up ((3 - 3 / 2) / (of_int (1000000000 - 0) / 1000000000)) = 2"
proof -
  have q: "roundF2I (f64_div (f64_of_int64 (3 - 0)) (Seconds (Sub 1000000000 0))) (Fin (1 / 2))
             = Some 3"
    by (simp add: f64_eval)
  have ty: "typeColumn exampleStrconv ''3'' = (columnTypeInt, 3, Fin 3)"
    by (simp add: typeColumn_def exampleStrconv_def)
  have ty': "typedValue ''1.5'' (typeColumn exampleStrconv ''1.5'') = VFloat (Fin (3 / 2))"
    by (simp add: typedValue_def typeColumn_def exampleStrconv_def)
  have r: "round_half_up ((3 - 3 / 2) / (of_int (1000000000 - 0) / 1000000000)) = 2"
    by (simp add: round_half_up_def frac_def)
  show ?thesis
    unfolding ty using q r ty'
    by (simp add: trackDelta_int exampleBeat_def calcInt_def setField_def)
qed

text \<open>
  The int64 difference wraps. The stored value is \<open>- 2 ^ 62\<close> at time \<open>0\<close>; two
  seconds later the cell is \<open>2 ^ 62 + 2 ^ 61\<close>. The difference \<open>2 ^ 63 + 2 ^ 61\<close>
  wraps to \<open>- 2 ^ 63 + 2 ^ 61\<close>, and the field emitted is negative.
\<close>

lemma rate_difference_wraps:
  "sint (- 4611686018427387904 :: int64) < sint (6917529027641081856 :: int64)
   \<and> snd (trackDelta
        (exampleBeat [] [''n_delta'' \<mapsto> VInt (- 4611686018427387904)] [''n_delta'' \<mapsto> 0])
        [] ''n_delta'' ''n_PERSECOND'' ''6917529027641081856''
        (typeColumn exampleStrconv ''6917529027641081856'') 2000000000)
      = [(''n_PERSECOND'', VInt (- 3458764513820540928))]"
proof -
  have q: "roundF2I
             (f64_div (f64_of_int64 (6917529027641081856 - (- 4611686018427387904)))
                (Seconds (Sub 2000000000 0))) (Fin (1 / 2))
           = Some (- 3458764513820540928)"
    by (simp add: f64_eval)
  have ty: "typeColumn exampleStrconv ''6917529027641081856''
              = (columnTypeInt, 6917529027641081856, Fin 6917529027641081856)"
    by (simp add: typeColumn_def exampleStrconv_def)
  show ?thesis
    unfolding ty using q
    by (simp add: trackDelta_int exampleBeat_def calcInt_def setField_def)
qed

text \<open>
  Claim C8, as the code has it. When the stored value has the type of the current one
  (an int64 for an integer cell, a float64 for a float cell) and the current value is
  not greater, the rate emitted is exactly \<open>0\<close>, and the stored state becomes
  \<open>(v2, t1)\<close>.
\<close>

theorem trackDelta_reset_rate_zero:
  "(oldValues bt k = Some (VInt v) \<and> oldValuesAge bt k = Some t0
      \<and> ParseInt L s = Some v2 \<and> sint v2 \<le> sint v \<longrightarrow>
      trackDelta bt flds k ev s (typeColumn L s) t1 =
        (bt\<lparr>oldValues := (oldValues bt)(k \<mapsto> VInt v2),
            oldValuesAge := (oldValuesAge bt)(k \<mapsto> t1)\<rparr>,
         setField flds ev (VInt 0)))
   \<and> (oldValues bt k = Some (VFloat w) \<and> oldValuesAge bt k = Some t0
      \<and> ParseInt L s = None \<and> ParseFloat L s = Some w2 \<and> f64_ge w w2 \<longrightarrow>
      trackDelta bt flds k ev s (typeColumn L s) t1 =
        (bt\<lparr>oldValues := (oldValues bt)(k \<mapsto> VFloat w2),
            oldValuesAge := (oldValuesAge bt)(k \<mapsto> t1)\<rparr>,
         setField flds ev (VFloat (Fin 0))))"
proof (intro conjI impI)
  assume h: "oldValues bt k = Some (VInt v) \<and> oldValuesAge bt k = Some t0
      \<and> ParseInt L s = Some v2 \<and> sint v2 \<le> sint v"
  then obtain f where ty: "typeColumn L s = (columnTypeInt, v2, f)"
    using typeColumn_int by blast
  show "trackDelta bt flds k ev s (typeColumn L s) t1 =
        (bt\<lparr>oldValues := (oldValues bt)(k \<mapsto> VInt v2),
            oldValuesAge := (oldValuesAge bt)(k \<mapsto> t1)\<rparr>,
         setField flds ev (VInt 0))"
    unfolding ty using h by (simp add: trackDelta_int calcInt_def)
next
  assume h: "oldValues bt k = Some (VFloat w) \<and> oldValuesAge bt k = Some t0
      \<and> ParseInt L s = None \<and> ParseFloat L s = Some w2 \<and> f64_ge w w2"
  then have ty: "typeColumn L s = (columnTypeFloat, 0, w2)"
    by (simp add: typeColumn_float)
  have "\<not> f64_gt w2 w" using h by (simp add: f64_ge_not_gt)
  then show "trackDelta bt flds k ev s (typeColumn L s) t1 =
        (bt\<lparr>oldValues := (oldValues bt)(k \<mapsto> VFloat w2),
            oldValuesAge := (oldValuesAge bt)(k \<mapsto> t1)\<rparr>,
         setField flds ev (VFloat (Fin 0)))"
    unfolding ty using h by (simp add: trackDelta_float)
qed

text \<open>
  An integer counter that falls from \<open>150\<close> to \<open>100\<close>, and a float gauge that
  falls from \<open>7\<close> to \<open>5.5\<close>: rate \<open>0\<close>, state replaced.
\<close>

theorem trackDelta_reset_rate_zero_witness:
  "trackDelta (exampleBeat [] [''Queries_delta'' \<mapsto> VInt 150] [''Queries_delta'' \<mapsto> 0]) []
       ''Queries_delta'' ''Queries_PERSECOND'' ''100'' (typeColumn exampleStrconv ''100'')
       10000000000 =
     ((exampleBeat [] [''Queries_delta'' \<mapsto> VInt 150] [''Queries_delta'' \<mapsto> 0])
        \<lparr>oldValues := [''Queries_delta'' \<mapsto> VInt 100],
         oldValuesAge := [''Queries_delta'' \<mapsto> 10000000000]\<rparr>,
      [(''Queries_PERSECOND'', VInt 0)])
   \<and> trackDelta (exampleBeat [] [''load_delta'' \<mapsto> VFloat (Fin 7)] [''load_delta'' \<mapsto> 0]) []
       ''load_delta'' ''load_PERSECOND'' ''5.5'' (typeColumn exampleStrconv ''5.5'')
       10000000000 =
     ((exampleBeat [] [''load_delta'' \<mapsto> VFloat (Fin 7)] [''load_delta'' \<mapsto> 0])
        \<lparr>oldValues := [''load_delta'' \<mapsto> VFloat (Fin (11 / 2))],
         oldValuesAge := [''load_delta'' \<mapsto> 10000000000]\<rparr>,
      [(''load_PERSECOND'', VFloat (Fin 0))])"
  using trackDelta_reset_rate_zero
          [of "exampleBeat [] [''Queries_delta'' \<mapsto> VInt 150] [''Queries_delta'' \<mapsto> 0]"
              "''Queries_delta''" 150 0 exampleStrconv "''100''" 100 "[]"
              "''Queries_PERSECOND''" 10000000000]
        trackDelta_reset_rate_zero
          [of "exampleBeat [] [''load_delta'' \<mapsto> VFloat (Fin 7)] [''load_delta'' \<mapsto> 0]"
              "''load_delta''" _ 0 exampleStrconv "''5.5''" _ "[]"
              "''load_PERSECOND''" 10000000000 "Fin 7" "Fin (11 / 2)"]
  by (simp add: exampleBeat_def exampleStrconv_def setField_def)

text \<open>
  Claim C8 as stated fails where the stored value is of the other type. The stored value is the
  int64 \<open>10\<close>; one second later the cell is \<open>5.5\<close>, a float and not greater. The
  type assertion to float64 fails, the old value is read as \<open>0\<close>, and the rate
  emitted is \<open>5.5\<close>, not \<open>0\<close>.
\<close>

theorem mixed_type_reset_counterexample:
  "(11 / 2 :: real) \<le> 10
   \<and> trackDelta (exampleBeat [] [''load_delta'' \<mapsto> VInt 10] [''load_delta'' \<mapsto> 0]) []
       ''load_delta'' ''load_PERSECOND'' ''5.5'' (typeColumn exampleStrconv ''5.5'')
       1000000000 =
     ((exampleBeat [] [''load_delta'' \<mapsto> VInt 10] [''load_delta'' \<mapsto> 0])
        \<lparr>oldValues := [''load_delta'' \<mapsto> VFloat (Fin (11 / 2))],
         oldValuesAge := [''load_delta'' \<mapsto> 1000000000]\<rparr>,
      [(''load_PERSECOND'', VFloat (Fin (11 / 2)))])"
proof -
  have ty: "typeColumn exampleStrconv ''5.5'' = (columnTypeFloat, 0, Fin (11 / 2))"
    by (simp add: typeColumn_def exampleStrconv_def)
  have q: "f64_div (f64_sub (Fin (11 / 2)) (Fin 0)) (Seconds (Sub 1000000000 0)) = Fin (11 / 2)"
    by (simp add: f64_eval)
  show ?thesis
    unfolding ty using q
    by (simp add: trackDelta_float exampleBeat_def setField_def)
qed

text \<open>
  Claim C6, as the code has it. For an observation with prior state whose current cell
  parses neither as an integer nor as a float, the raw text is emitted under the name of
  the rate field, and the beater is left as it was: the stored value and time are not
  replaced.
\<close>

theorem trackDelta_string_keeps_state:
  "oldValues bt k = Some stored \<and> oldValuesAge bt k = Some t0
     \<and> ParseInt L s = None \<and> ParseFloat L s = None \<longrightarrow>
   trackDelta bt flds k ev s (typeColumn L s) t1 = (bt, setField flds ev (VString s))"
  by (simp add: typeColumn_string trackDelta_string)

theorem trackDelta_string_keeps_state_witness:
  "trackDelta (exampleBeat [] [''mode_delta'' \<mapsto> VInt 100] [''mode_delta'' \<mapsto> 0]) []
      ''mode_delta'' ''mode_PERSECOND'' ''ON'' (typeColumn exampleStrconv ''ON'') 10000000000 =
     (exampleBeat [] [''mode_delta'' \<mapsto> VInt 100] [''mode_delta'' \<mapsto> 0],
      [(''mode_PERSECOND'', VString ''ON'')])"
  using trackDelta_string_keeps_state
          [of "exampleBeat [] [''mode_delta'' \<mapsto> VInt 100] [''mode_delta'' \<mapsto> 0]"
              "''mode_delta''" "VInt 100" 0 exampleStrconv "''ON''" "[]" "''mode_PERSECOND''"
              10000000000]
  by (simp add: exampleBeat_def exampleStrconv_def setField_def)

text \<open>
  The second half of claim C6 fails: after the cell \<open>ON\<close> at ten seconds, the state of
  the key is still the value \<open>100\<close> seen at time \<open>0\<close>.
\<close>

theorem string_state_not_overwritten_counterexample:
  "oldValues (fst (trackDelta
       (exampleBeat [] [''mode_delta'' \<mapsto> VInt 100] [''mode_delta'' \<mapsto> 0]) []
       ''mode_delta'' ''mode_PERSECOND'' ''ON'' (typeColumn exampleStrconv ''ON'') 10000000000))
     ''mode_delta'' = Some (VInt 100)
   \<and> oldValuesAge (fst (trackDelta
       (exampleBeat [] [''mode_delta'' \<mapsto> VInt 100] [''mode_delta'' \<mapsto> 0]) []
       ''mode_delta'' ''mode_PERSECOND'' ''ON'' (typeColumn exampleStrconv ''ON'') 10000000000))
     ''mode_delta'' = Some 0
   \<and> snd (trackDelta
       (exampleBeat [] [''mode_delta'' \<mapsto> VInt 100] [''mode_delta'' \<mapsto> 0]) []
       ''mode_delta'' ''mode_PERSECOND'' ''ON'' (typeColumn exampleStrconv ''ON'') 10000000000)
     = [(''mode_PERSECOND'', VString ''ON'')]"
proof -
  have ty: "typeColumn exampleStrconv ''ON'' = (columnTypeString, 0, Fin 0)"
    by (simp add: typeColumn_def exampleStrconv_def)
  show ?thesis
    unfolding ty by (simp add: trackDelta_string exampleBeat_def setField_def)
qed











subsection \<open>The key of a row and the errors of a cycle\<close>

lemma getKeyLoop_found:
  "snd (getKeyLoop w cvs acc) = (snd acc \<or> (\<exists>c \<in> set (map fst cvs). HasSuffix c w))"
  by (induction w cvs acc rule: getKeyLoop.induct) auto

lemma getKeyFromRow_missing:
  assumes "\<forall>c \<in> set columns. \<not> HasSuffix c (DeltaKeyWildcard (config bt))"
  shows "getKeyFromRow bt values columns = Inl MissingKeyColumn"
proof -
  have "set (map fst (zip columns values)) \<subseteq> set columns"
    by (auto dest: set_zip_leftD)
  then have "\<not> snd (getKeyLoop (DeltaKeyWildcard (config bt)) (zip columns values) ([], False))"
    using assms unfolding getKeyLoop_found by auto
  then show ?thesis
    by (cases "getKeyLoop (DeltaKeyWildcard (config bt)) (zip columns values) ([], False)")
       (simp add: getKeyFromRow_def)
qed

lemma processColumn_multipleRows_plain:
  "\<not> HasSuffix name (DeltaWildcard (config bt)) \<Longrightarrow>
   \<exists>flds'. processColumn L queryTypeMultipleRows values columns rowAge bt flds name col
            = (bt, Inr flds')"
  by (simp add: processColumn_def queryType_distinct Let_def)

lemma processColumn_multipleRows_missing_key:
  "HasSuffix name (DeltaWildcard (config bt)) \<Longrightarrow>
   getKeyFromRow bt values columns = Inl MissingKeyColumn \<Longrightarrow>
   processColumn L queryTypeMultipleRows values columns rowAge bt flds name col
     = (bt, Inl MissingKeyColumn)"
  by (simp add: processColumn_def queryType_distinct Let_def)

text \<open>
  The loop over the columns stops at the first column with the delta marker; the
  columns before it change the fields only.
\<close>

lemma columnsLoop_missing_key:
  assumes "getKeyFromRow bt values columns = Inl MissingKeyColumn"
    and "\<exists>c \<in> set (map fst cvs). HasSuffix c (DeltaWildcard (config bt))"
  shows "columnsLoop L queryTypeMultipleRows values columns rowAge bt flds cvs
           = (bt, Inl MissingKeyColumn)"
  using assms(2)
proof (induction cvs arbitrary: flds)
  case Nil
  then show ?case by simp
next
  case (Cons cv cvs)
  obtain name col where cv: "cv = (name, col)" by (cases cv)
  show ?case
  proof (cases "HasSuffix name (DeltaWildcard (config bt))")
    case True
    then show ?thesis
      using assms(1) by (simp add: cv processColumn_multipleRows_missing_key)
  next
    case False
    then obtain flds' where p:
      "processColumn L queryTypeMultipleRows values columns rowAge bt flds name col
         = (bt, Inr flds')"
      using processColumn_multipleRows_plain by blast
    have "\<exists>c \<in> set (map fst cvs). HasSuffix c (DeltaWildcard (config bt))"
      using Cons.prems False by (auto simp add: cv)
    then show ?thesis
      using Cons.IH by (simp add: cv p)
  qed
qed

lemma generateEventFromRow_missing_key:
  assumes "lastcols row = Some r" "length r = length columns"
    and "\<exists>c \<in> set columns. HasSuffix c (DeltaWildcard (config bt))"
    and "\<forall>c \<in> set columns. \<not> HasSuffix c (DeltaKeyWildcard (config bt))"
  shows "generateEventFromRow L bt row columns queryTypeMultipleRows rowAge
           = (bt, Inl MissingKeyColumn)"
proof -
  have sc: "Scan row (length columns) = Inr r" using assms(1,2) by (simp add: Scan_def)
  have "map fst (zip columns r) = columns" using assms(2) by (simp add: map_fst_zip)
  then have ex: "\<exists>c \<in> set (map fst (zip columns r)). HasSuffix c (DeltaWildcard (config bt))"
    using assms(3) by simp
  have "columnsLoop L queryTypeMultipleRows r columns rowAge bt
          (emptyFields queryTypeMultipleRows) (zip columns r) = (bt, Inl MissingKeyColumn)"
    using getKeyFromRow_missing [OF assms(4)] ex by (rule columnsLoop_missing_key)
  then show ?thesis by (simp add: generateEventFromRow_def sc)
qed

text \<open>
  Claim C3, as the code has it. When a multiple-rows query returns a row, one of its
  columns ends with the delta marker and none ends with the key marker,
  \<open>getKeyFromRow\<close> fails: the query returns no event and the error
  \<open>MissingKeyColumn\<close>, the beater is unchanged, and the error ends the cycle:
  \<open>beat\<close> returns it at once, publishes nothing of this query and does not run the
  queries that follow.
\<close>

theorem missing_key_aborts_cycle:
  assumes "Type query = queryTypeMultipleRows"
    and "db (SQL query) = Some rows"
    and "pending rows = r # rs"
    and "length r = length (Columns rows)"
    and "\<exists>c \<in> set (Columns rows). HasSuffix c (DeltaWildcard (config bt))"
    and "\<forall>c \<in> set (Columns rows). \<not> HasSuffix c (DeltaKeyWildcard (config bt))"
  shows "iterateQuery L db dtNow bt (Type query) (SQL query) = (bt, [], Some MissingKeyColumn)
         \<and> beatLoop L db now i (query # rest) bt = (bt, Some MissingKeyColumn)"
proof -
  have g: "generateEventFromRow L bt (rows\<lparr>pending := rs, lastcols := Some r\<rparr>) (Columns rows)
             queryTypeMultipleRows t = (bt, Inl MissingKeyColumn)" for t
    using assms(4,5,6) by (intro generateEventFromRow_missing_key [where r = r]) simp_all
  have it: "iterateQuery L db t bt (Type query) (SQL query) = (bt, [], Some MissingKeyColumn)"
    for t
    using assms(1,2,3) g
    by (simp add: iterateQuery_def queryType_distinct multipleRowsLoop_Cons Let_def)
  show ?thesis
    using it by simp
qed

text \<open>
  Two queries: a multiple-rows query with the columns \<open>name\<close> and \<open>n_delta\<close>, then
  a single-row query. The cycle ends with the error of the first.
\<close>

theorem missing_key_aborts_cycle_witness:
  "beat exampleStrconv exampleDb exampleClock (exampleBeat exampleQueries Map.empty Map.empty) =
     (exampleBeat exampleQueries Map.empty Map.empty, Some MissingKeyColumn)"
  using missing_key_aborts_cycle
          [of "\<lparr>Type = ''multiple-rows'', SQL = ''SELECT A''\<rparr>" exampleDb
              "exampleRows [''name'', ''n_delta''] [[''a'', ''5'']]" "[''a'', ''5'']" "[]"
              "exampleBeat exampleQueries Map.empty Map.empty" exampleStrconv 0 exampleClock 0
              "[\<lparr>Type = ''single-row'', SQL = ''SELECT B''\<rparr>]"]
  by (simp add: beat_def exampleBeat_def exampleConfig_def exampleQueries_def exampleDb_def
        exampleRows_def queryTypeMultipleRows_def HasSuffix_def)

text \<open>
  Without a column that ends with the delta marker the key is never asked for: the same
  kind of query, with no key column, returns its record and no error.
\<close>

lemma no_delta_column_no_error:
  "iterateQuery exampleStrconv exampleDb 0 (exampleBeat [] Map.empty Map.empty)
      ''multiple-rows'' ''SELECT B''
     = (exampleBeat [] Map.empty Map.empty,
        [\<lparr>Timestamp = 0,
          Fields = Some [(''type'', VString ''multiple-rows''), (''Threads_running'', VInt 5)]\<rparr>],
        None)"
  by (simp add: beat_eval)

text \<open>
  Claim C3 as stated fails in its second half: in that cycle nothing is published,
  though the single-row query that follows would yield a record were it run.
\<close>

theorem later_queries_not_run_counterexample:
  "snd (beat exampleStrconv exampleDb exampleClock (exampleBeat exampleQueries Map.empty Map.empty))
     = Some MissingKeyColumn
   \<and> client (fst (beat exampleStrconv exampleDb exampleClock
                     (exampleBeat exampleQueries Map.empty Map.empty))) = []
   \<and> fst (snd (iterateQuery exampleStrconv exampleDb 0
                  (exampleBeat exampleQueries Map.empty Map.empty) ''single-row'' ''SELECT B''))
     = [\<lparr>Timestamp = 0,
         Fields = Some [(''type'', VString ''single-row''), (''Threads_running'', VInt 5)]\<rparr>]"
  by (simp add: beat_eval)

subsection \<open>Empty results and empty records\<close>

text \<open>
  Claim C4 does not hold of the code. In single-row and show-slave-delay mode
  \<open>iterateQuery\<close> does not look at what \<open>rows.Next()\<close> returns; on a result with no
  row the scan of \<open>generateEventFromRow\<close> fails, and that error is returned: no
  record, but an error, which ends the cycle.
\<close>

theorem empty_result_scan_error:
  assumes "Type query = queryTypeSingleRow \<or> Type query = queryTypeSlaveDelay"
    and "db (SQL query) = Some rows"
    and "pending rows = []"
  shows "iterateQuery L db dtNow bt (Type query) (SQL query) = (bt, [], Some ScanError)
         \<and> beatLoop L db now i (query # rest) bt = (bt, Some ScanError)"
proof -
  have g: "generateEventFromRow L bt (snd (Next rows)) (Columns rows) (Type query) t
             = (bt, Inl ScanError)" for t
    using assms(3) by (simp add: generateEventFromRow_def Next_Nil Scan_def)
  have it: "iterateQuery L db t bt (Type query) (SQL query) = (bt, [], Some ScanError)" for t
    using assms(1,2) g by (auto simp add: iterateQuery_def Let_def)
  show ?thesis using it by simp
qed

theorem empty_result_scan_error_witness:
  "iterateQuery exampleStrconv exampleDb 0 (exampleBeat [] Map.empty Map.empty)
      ''single-row'' ''SELECT F'' = (exampleBeat [] Map.empty Map.empty, [], Some ScanError)
   \<and> iterateQuery exampleStrconv exampleDb 0 (exampleBeat [] Map.empty Map.empty)
      ''show-slave-delay'' ''SELECT F'' = (exampleBeat [] Map.empty Map.empty, [], Some ScanError)
   \<and> beat exampleStrconv exampleDb exampleClock
        (exampleBeat [\<lparr>Type = ''show-slave-delay'', SQL = ''SELECT F''\<rparr>,
                      \<lparr>Type = ''single-row'', SQL = ''SELECT B''\<rparr>] Map.empty Map.empty)
      = (exampleBeat [\<lparr>Type = ''show-slave-delay'', SQL = ''SELECT F''\<rparr>,
                      \<lparr>Type = ''single-row'', SQL = ''SELECT B''\<rparr>] Map.empty Map.empty,
         Some ScanError)"
  using empty_result_scan_error
          [of "\<lparr>Type = ''single-row'', SQL = ''SELECT F''\<rparr>" exampleDb
              "exampleRows [''Seconds_Behind_Master''] []" exampleStrconv 0
              "exampleBeat [] Map.empty Map.empty"]
        empty_result_scan_error
          [of "\<lparr>Type = ''show-slave-delay'', SQL = ''SELECT F''\<rparr>" exampleDb
              "exampleRows [''Seconds_Behind_Master''] []" exampleStrconv 0
              "exampleBeat [] Map.empty Map.empty"]
        empty_result_scan_error
          [of "\<lparr>Type = ''show-slave-delay'', SQL = ''SELECT F''\<rparr>" exampleDb
              "exampleRows [''Seconds_Behind_Master''] []" exampleStrconv 0
              "exampleBeat [\<lparr>Type = ''show-slave-delay'', SQL = ''SELECT F''\<rparr>,
                      \<lparr>Type = ''single-row'', SQL = ''SELECT B''\<rparr>] Map.empty Map.empty"
              exampleClock 0 "[\<lparr>Type = ''single-row'', SQL = ''SELECT B''\<rparr>]"]
  by (simp add: beat_def exampleBeat_def exampleConfig_def exampleDb_def exampleRows_def
        queryTypeSingleRow_def queryTypeSlaveDelay_def)

text \<open>
  The other two modes loop on \<open>rows.Next()\<close>: on a result with no row they return no
  error (and two-columns mode returns its record with the mode tag alone).
\<close>

lemma empty_result_other_modes:
  assumes "db queryStr = Some rows" and "pending rows = []"
  shows "iterateQuery L db dtNow bt queryTypeMultipleRows queryStr = (bt, [], None)"
    and "iterateQuery L db dtNow bt queryTypeTwoColumns queryStr
           = (bt, [\<lparr>Timestamp = dtNow, Fields = Some (emptyFields queryTypeTwoColumns)\<rparr>], None)"
  using assms
  by (simp_all add: iterateQuery_def queryType_distinct multipleRowsLoop_Nil twoColumnsLoop_Nil
        generateEmptyEvent_def)

text \<open>
  Claim C5 does not hold of the code. A single-row query whose only column is a delta
  column at its cold start assembles a record with the mode tag alone;
  \<open>generateEventFromRow\<close> sets the \<open>Fields\<close> of the event to nil and returns the
  event, which is not nil: \<open>iterateQuery\<close> appends it and \<open>beat\<close> publishes it. In
  two-columns mode a result with no row is published as a record with the mode tag
  alone.
\<close>

theorem empty_event_still_published:
  "iterateQuery exampleStrconv exampleDb 0
      (exampleBeat [\<lparr>Type = ''single-row'', SQL = ''SELECT D''\<rparr>] Map.empty Map.empty)
      ''single-row'' ''SELECT D''
     = ((exampleBeat [\<lparr>Type = ''single-row'', SQL = ''SELECT D''\<rparr>] Map.empty Map.empty)
          \<lparr>oldValuesAge := [''Queries_delta'' \<mapsto> 0],
           oldValues := [''Queries_delta'' \<mapsto> VInt 100]\<rparr>,
        [\<lparr>Timestamp = 0, Fields = None\<rparr>], None)
   \<and> client (fst (beat exampleStrconv exampleDb exampleClock
        (exampleBeat [\<lparr>Type = ''single-row'', SQL = ''SELECT D''\<rparr>] Map.empty Map.empty)))
     = [\<lparr>Timestamp = 0, Fields = None\<rparr>]
   \<and> client (fst (beat exampleStrconv exampleDb exampleClock
        (exampleBeat [\<lparr>Type = ''two-columns'', SQL = ''SELECT E''\<rparr>] Map.empty Map.empty)))
     = [\<lparr>Timestamp = 0, Fields = Some [(''type'', VString ''two-columns'')]\<rparr>]"
  by (simp add: beat_eval)

subsection \<open>Two-columns mode\<close>

text \<open>
  Claim C10. After a successful scan \<open>appendRowToEvent\<close> reads the cells \<open>0\<close> and
  \<open>1\<close> of the row: with fewer than two columns the read is out of range and the
  function panics; with two columns or more it returns without error.
\<close>

theorem appendRowToEvent_index:
  assumes "lastcols row = Some r" and "length r = length columns"
  shows "(length columns < 2 \<longrightarrow>
            appendRowToEvent L bt flds row columns rowAge = (bt, Inl PanicIndexOutOfRange))
         \<and> (2 \<le> length columns \<longrightarrow>
            (\<exists>bt' flds'. appendRowToEvent L bt flds row columns rowAge = (bt', Inr flds')))"
proof (intro conjI impI)
  assume "length columns < 2"
  then show "appendRowToEvent L bt flds row columns rowAge = (bt, Inl PanicIndexOutOfRange)"
    using assms by (auto simp add: appendRowToEvent_def Scan_def index_def)
next
  assume "2 \<le> length columns"
  then have i: "index r 0 = Inr (r ! 0)" "index r 1 = Inr (r ! 1)"
    using assms(2) by (auto simp add: index_def)
  obtain bt' flds' where t: "trackDelta bt flds (r ! 0)
        (Replace (r ! 0) (DeltaWildcard (config bt)) ''_PERSECOND'') (r ! 1)
        (typeColumn L (r ! 1)) rowAge = (bt', flds')"
    by (cases "trackDelta bt flds (r ! 0)
        (Replace (r ! 0) (DeltaWildcard (config bt)) ''_PERSECOND'') (r ! 1)
        (typeColumn L (r ! 1)) rowAge")
  show "\<exists>bt' flds'. appendRowToEvent L bt flds row columns rowAge = (bt', Inr flds')"
    using assms i t by (simp add: appendRowToEvent_def Scan_def Let_def)
qed

text \<open>A row of one column panics; a row of two columns does not.\<close>

theorem appendRowToEvent_index_witness:
  "appendRowToEvent exampleStrconv (exampleBeat [] Map.empty Map.empty)
      (emptyFields queryTypeTwoColumns)
      \<lparr>Columns = [''Variable_name''], pending = [], lastcols = Some [''Uptime'']\<rparr>
      [''Variable_name''] 0
     = (exampleBeat [] Map.empty Map.empty, Inl PanicIndexOutOfRange)
   \<and> (\<exists>bt' flds'. appendRowToEvent exampleStrconv (exampleBeat [] Map.empty Map.empty)
      (emptyFields queryTypeTwoColumns)
      \<lparr>Columns = [''Variable_name'', ''Value''], pending = [],
        lastcols = Some [''Uptime'', ''100'']\<rparr>
      [''Variable_name'', ''Value''] 0 = (bt', Inr flds'))"
  using appendRowToEvent_index
          [of "\<lparr>Columns = [''Variable_name''], pending = [], lastcols = Some [''Uptime'']\<rparr>"
              "[''Uptime'']" "[''Variable_name'']" exampleStrconv
              "exampleBeat [] Map.empty Map.empty" "emptyFields queryTypeTwoColumns" 0]
        appendRowToEvent_index
          [of "\<lparr>Columns = [''Variable_name'', ''Value''], pending = [],
                lastcols = Some [''Uptime'', ''100'']\<rparr>"
              "[''Uptime'', ''100'']" "[''Variable_name'', ''Value'']" exampleStrconv
              "exampleBeat [] Map.empty Map.empty" "emptyFields queryTypeTwoColumns" 0]
  by simp

subsection \<open>The two scenarios of the specification, end to end\<close>

text \<open>
  Single-row mode with the columns \<open>Threads_running\<close> and \<open>Queries_delta\<close>. The
  first cycle, at time \<open>0\<close> with the row \<open>(5, 100)\<close>, emits \<open>Threads_running = 5\<close>
  and no field for the delta column; the second, ten seconds later with the row
  \<open>(5, 150)\<close>, emits \<open>Queries_PERSECOND = 5\<close> as well.
\<close>

lemma scenario_single_row:
  "fst (snd (iterateQuery exampleStrconv exampleDb 0 (exampleBeat [] Map.empty Map.empty)
               ''single-row'' ''SELECT G''))
     = [\<lparr>Timestamp = 0,
         Fields = Some [(''type'', VString ''single-row''), (''Threads_running'', VInt 5)]\<rparr>]
   \<and> fst (snd (iterateQuery exampleStrconv exampleDb 10000000000
                  (fst (iterateQuery exampleStrconv exampleDb 0
                          (exampleBeat [] Map.empty Map.empty) ''single-row'' ''SELECT G''))
                  ''single-row'' ''SELECT H''))
     = [\<lparr>Timestamp = 10000000000,
         Fields = Some [(''type'', VString ''single-row''), (''Threads_running'', VInt 5),
                        (''Queries_PERSECOND'', VInt 5)]\<rparr>]"
proof -
  have q: "roundF2I (f64_div (f64_of_int64 (150 - 100)) (Seconds 10000000000)) (Fin (1 / 2))
             = Some 5"
    by (simp add: f64_eval)
  show ?thesis
    using q by (simp add: beat_eval)
qed

text \<open>
  Show-slave-delay mode: of the row \<open>(Seconds_Behind_Master = 3, Other_Column = x)\<close>
  only the first column is emitted.
\<close>

lemma scenario_slave_delay:
  "fst (snd (iterateQuery exampleStrconv exampleDb 0 (exampleBeat [] Map.empty Map.empty)
               ''show-slave-delay'' ''SHOW SLAVE STATUS''))
     = [\<lparr>Timestamp = 0,
         Fields = Some [(''type'', VString ''show-slave-delay''),
                        (''Seconds_Behind_Master'', VInt 3)]\<rparr>]"
  by (simp add: beat_eval)

end
